theory Spec2Isabelle
  imports Complex_Main "HOL-Library.Sublist"
begin

section \<open>JavaScript values\<close>

text \<open>
  The server (src/server.js) is an Express application over one SQLite table. Its
  handlers work on JavaScript values, so the model starts with them.

  A JavaScript number is an IEEE double. The model keeps a finite number as a real and
  gives NaN and the two infinities their own constructors; rounding, overflow and the
  sign of zero are not modelled.
\<close>

datatype jsnum = Fin real | NaN | PosInf | NegInf

text \<open>
  The values a parsed request can hold. An array or an object (\<open>JObj\<close>) is kept as the
  text \<open>String(v)\<close> gives for it, which is all the handlers ever ask of one besides its
  type and its truthiness. \<open>JUndefined\<close> is a missing property.
\<close>

datatype jsval = JUndefined | JNull | JBool bool | JNum jsnum | JStr string | JObj string

text \<open>
  What the program takes from its platform and never defines itself: the environment
  variable ADMIN_KEY, the text \<open>String(n)\<close> of a number, and the text SQLite gives a
  REAL that lands in a TEXT column. They are parameters of the model, so every result
  below holds whatever the two renderings are.
\<close>

record platform =
  env_ADMIN_KEY :: "string option"
  num_text :: "jsnum \<Rightarrow> string"
  real_text :: "jsnum \<Rightarrow> string"

fun typeof :: "jsval \<Rightarrow> string" where
  "typeof JUndefined = ''undefined''"
| "typeof JNull = ''object''"
| "typeof (JBool b) = ''boolean''"
| "typeof (JNum n) = ''number''"
| "typeof (JStr s) = ''string''"
| "typeof (JObj s) = ''object''"

text \<open>Truthiness (ToBoolean): what \<open>!v\<close>, \<open>v ? a : b\<close> and \<open>v || d\<close> test.\<close>

fun truthy :: "jsval \<Rightarrow> bool" where
  "truthy JUndefined = False"
| "truthy JNull = False"
| "truthy (JBool b) = b"
| "truthy (JNum n) = (n \<noteq> NaN \<and> n \<noteq> Fin 0)"
| "truthy (JStr s) = (s \<noteq> [])"
| "truthy (JObj s) = True"

text \<open>
  \<open>Array.prototype.includes\<close> compares with SameValueZero: primitives by type and
  value, an object only with itself, and the object of a request is never the member
  of an array literal of the program.
\<close>

definition same_value_zero :: "jsval \<Rightarrow> jsval \<Rightarrow> bool" where
  "same_value_zero a b = (case a of JObj s \<Rightarrow> False | _ \<Rightarrow> a = b)"

definition js_includes :: "jsval list \<Rightarrow> jsval \<Rightarrow> bool" where
  "js_includes xs v = list_ex (\<lambda>x. same_value_zero x v) xs"

text \<open>\<open>a ?? b\<close> and \<open>v != null\<close>.\<close>

definition nullish :: "jsval \<Rightarrow> bool" where
  "nullish v = (v = JUndefined \<or> v = JNull)"

definition coalesce :: "jsval \<Rightarrow> jsval \<Rightarrow> jsval" where
  "coalesce a b = (if nullish a then b else a)"

fun js_String :: "platform \<Rightarrow> jsval \<Rightarrow> string" where
  "js_String P JUndefined = ''undefined''"
| "js_String P JNull = ''null''"
| "js_String P (JBool b) = (if b then ''true'' else ''false'')"
| "js_String P (JNum n) = num_text P n"
| "js_String P (JStr s) = s"
| "js_String P (JObj s) = s"

subsection \<open>Strings\<close>

text \<open>
  Strings are modelled as ASCII text. \<open>toUpperCase\<close> maps the letters a to z and leaves
  every other character as it is.
\<close>

definition lower_alpha :: string where
  "lower_alpha = ''abcdefghijklmnopqrstuvwxyz''"

definition upper_alpha :: string where
  "upper_alpha = ''ABCDEFGHIJKLMNOPQRSTUVWXYZ''"

definition upper_char :: "char \<Rightarrow> char" where
  "upper_char c = (case map_of (zip lower_alpha upper_alpha) c of Some u \<Rightarrow> u | None \<Rightarrow> c)"

definition toUpperCase :: "string \<Rightarrow> string" where
  "toUpperCase s = map upper_char s"

text \<open>White space that the number parsers skip: tab, LF, VT, FF, CR and space.\<close>

definition ws_chars :: "char list" where
  "ws_chars = [CHR 0x09, CHR 0x0A, CHR 0x0B, CHR 0x0C, CHR 0x0D, CHR '' '']"

definition trim_start :: "string \<Rightarrow> string" where
  "trim_start s = dropWhile (\<lambda>c. c \<in> set ws_chars) s"

definition trim :: "string \<Rightarrow> string" where
  "trim s = rev (trim_start (rev (trim_start s)))"

subsection \<open>Reading numbers from text\<close>

definition digit_table :: "(char \<times> nat) list" where
  "digit_table = zip ''0123456789abcdefABCDEF''
     [0, 1, 2, 3, 4, 5, 6, 7, 8, 9, 10, 11, 12, 13, 14, 15, 10, 11, 12, 13, 14, 15]"

definition is_radix_digit :: "nat \<Rightarrow> char \<Rightarrow> bool" where
  "is_radix_digit r c = (case map_of digit_table c of Some d \<Rightarrow> d < r | None \<Rightarrow> False)"

definition digit_value :: "char \<Rightarrow> nat" where
  "digit_value c = (case map_of digit_table c of Some d \<Rightarrow> d | None \<Rightarrow> 0)"

definition digits_value :: "nat \<Rightarrow> string \<Rightarrow> nat" where
  "digits_value r ds = foldl (\<lambda>a c. a * r + digit_value c) 0 ds"

definition split_sign :: "string \<Rightarrow> bool \<times> string" where
  "split_sign s =
     (case s of
        [] \<Rightarrow> (False, s)
      | c # t \<Rightarrow> if c = CHR ''-'' then (True, t) else if c = CHR ''+'' then (False, t)
                 else (False, s))"

fun num_neg :: "jsnum \<Rightarrow> jsnum" where
  "num_neg (Fin x) = Fin (- x)"
| "num_neg NaN = NaN"
| "num_neg PosInf = NegInf"
| "num_neg NegInf = PosInf"

definition scale10 :: "real \<Rightarrow> int \<Rightarrow> real" where
  "scale10 m e = (if 0 \<le> e then m * 10 ^ nat e else m / 10 ^ nat (- e))"

text \<open>
  The exponent part of a decimal literal: \<open>e\<close> or \<open>E\<close>, an optional sign, digits. Without
  digits it is not an exponent part and nothing is consumed.
\<close>

definition exponent_part :: "string \<Rightarrow> int \<times> string" where
  "exponent_part r =
     (case r of
        [] \<Rightarrow> (0, r)
      | c # t \<Rightarrow>
          if c = CHR ''e'' \<or> c = CHR ''E'' then
            (let (neg, u) = split_sign t; ds = takeWhile (is_radix_digit 10) u
             in if ds = [] then (0, r)
                else ((if neg then - int (digits_value 10 ds) else int (digits_value 10 ds)),
                      dropWhile (is_radix_digit 10) u))
          else (0, r))"

text \<open>
  The longest prefix that is a StrUnsignedDecimalLiteral (\<open>Infinity\<close>, \<open>12\<close>, \<open>12.\<close>,
  \<open>12.5\<close>, \<open>.5\<close>, each with an optional exponent), with its value and the rest of the text.
\<close>

definition unsigned_decimal :: "string \<Rightarrow> (jsnum \<times> string) option" where
  "unsigned_decimal s =
     (if prefix ''Infinity'' s then Some (PosInf, drop 8 s)
      else
        (let ip = takeWhile (is_radix_digit 10) s;
             r1 = dropWhile (is_radix_digit 10) s;
             fp = (case r1 of [] \<Rightarrow> []
                   | c # t \<Rightarrow> if c = CHR ''.'' then takeWhile (is_radix_digit 10) t else []);
             r2 = (case r1 of [] \<Rightarrow> r1
                   | c # t \<Rightarrow> if c = CHR ''.'' then dropWhile (is_radix_digit 10) t else r1)
         in if ip = [] \<and> fp = [] then None
            else (let m = real (digits_value 10 ip) + real (digits_value 10 fp) / 10 ^ length fp;
                      (e, r3) = exponent_part r2
                  in Some (Fin (scale10 m e), r3))))"

definition signed_decimal :: "string \<Rightarrow> (jsnum \<times> string) option" where
  "signed_decimal s =
     (let (neg, u) = split_sign s
      in case unsigned_decimal u of
           None \<Rightarrow> None
         | Some (n, r) \<Rightarrow> Some (if neg then num_neg n else n, r))"

text \<open>\<open>parseFloat\<close> on a text: skip white space, read the longest decimal prefix.\<close>

definition parseFloat_text :: "string \<Rightarrow> jsnum" where
  "parseFloat_text s = (case signed_decimal (trim_start s) of None \<Rightarrow> NaN | Some (n, r) \<Rightarrow> n)"

text \<open>
  \<open>parseFloat(v)\<close> reads \<open>String(v)\<close>. For a number that is the number itself (its text
  reads back as the same double); \<open>true\<close>, \<open>false\<close>, \<open>null\<close> and \<open>undefined\<close> start
  with no digit.
\<close>

fun parseFloat :: "jsval \<Rightarrow> jsnum" where
  "parseFloat (JNum n) = n"
| "parseFloat (JStr s) = parseFloat_text s"
| "parseFloat (JObj s) = parseFloat_text s"
| "parseFloat (JBool b) = NaN"
| "parseFloat JNull = NaN"
| "parseFloat JUndefined = NaN"

text \<open>
  \<open>parseInt(s)\<close> with no radix: skip white space, an optional sign, then base 16 after
  \<open>0x\<close> or \<open>0X\<close> and base 10 otherwise; the longest run of digits, NaN when it is empty.
\<close>

definition parseInt_text :: "string \<Rightarrow> jsnum" where
  "parseInt_text s =
     (let (neg, u) = split_sign (trim_start s);
          hex = (prefix ''0x'' u \<or> prefix ''0X'' u);
          r = (if hex then 16 else 10);
          ds = takeWhile (is_radix_digit r) (if hex then drop 2 u else u)
      in if ds = [] then NaN
         else Fin (if neg then - real (digits_value r ds) else real (digits_value r ds)))"

text \<open>
  ToNumber, which the operator \<open>-\<close> applies to its operands. A text counts only as a
  whole: empty is 0, otherwise a radix literal or a signed decimal with nothing after it.
\<close>

definition radix_literal :: "string \<Rightarrow> jsnum option" where
  "radix_literal t =
     (let r = (if prefix ''0x'' t \<or> prefix ''0X'' t then 16
               else if prefix ''0o'' t \<or> prefix ''0O'' t then 8
               else if prefix ''0b'' t \<or> prefix ''0B'' t then 2 else 0);
          ds = drop 2 t
      in if r \<noteq> 0 \<and> ds \<noteq> [] \<and> list_all (is_radix_digit r) ds
         then Some (Fin (real (digits_value r ds))) else None)"

definition StringToNumber :: "string \<Rightarrow> jsnum" where
  "StringToNumber s =
     (let t = trim s
      in if t = [] then Fin 0
         else case radix_literal t of
                Some n \<Rightarrow> n
              | None \<Rightarrow> (case signed_decimal t of
                           None \<Rightarrow> NaN
                         | Some (n, r) \<Rightarrow> if r = [] then n else NaN))"

fun ToNumber :: "jsval \<Rightarrow> jsnum" where
  "ToNumber JUndefined = NaN"
| "ToNumber JNull = Fin 0"
| "ToNumber (JBool b) = Fin (if b then 1 else 0)"
| "ToNumber (JNum n) = n"
| "ToNumber (JStr s) = StringToNumber s"
| "ToNumber (JObj s) = StringToNumber s"

fun num_minus :: "jsnum \<Rightarrow> jsnum \<Rightarrow> jsnum" where
  "num_minus NaN y = NaN"
| "num_minus x NaN = NaN"
| "num_minus (Fin a) (Fin b) = Fin (a - b)"
| "num_minus (Fin a) PosInf = NegInf"
| "num_minus (Fin a) NegInf = PosInf"
| "num_minus PosInf PosInf = NaN"
| "num_minus PosInf y = PosInf"
| "num_minus NegInf NegInf = NaN"
| "num_minus NegInf y = NegInf"

definition js_minus :: "jsval \<Rightarrow> jsval \<Rightarrow> jsnum" where
  "js_minus a b = num_minus (ToNumber a) (ToNumber b)"

text \<open>\<open>Math.min(x, y)\<close>: NaN when either argument is NaN.\<close>

fun Math_min :: "jsnum \<Rightarrow> jsnum \<Rightarrow> jsnum" where
  "Math_min NaN y = NaN"
| "Math_min x NaN = NaN"
| "Math_min NegInf y = NegInf"
| "Math_min x NegInf = NegInf"
| "Math_min PosInf y = y"
| "Math_min x PosInf = x"
| "Math_min (Fin a) (Fin b) = Fin (min a b)"

section \<open>Validation\<close>

text \<open>
  The request body after \<open>express.json()\<close> or \<open>express.urlencoded()\<close>: an object, of
  which the handler reads seven properties.
\<close>

record body =
  b_device :: jsval
  b_speed :: jsval
  b_limit :: jsval
  b_excess :: jsval
  b_tier :: jsval
  b_lat :: jsval
  b_lon :: jsval

text \<open>\<open>validateViolation\<close>: four independent checks, each pushing its message.\<close>

definition validateViolation :: "body \<Rightarrow> string list" where
  "validateViolation b =
     (if typeof (b_speed b) \<noteq> ''number'' then [''speed must be a number''] else []) @
     (if typeof (b_limit b) \<noteq> ''number'' then [''limit must be a number''] else []) @
     (if \<not> truthy (b_tier b) then [''tier is required''] else []) @
     (if \<not> js_includes [JStr ''MINOR'', JStr ''MODERATE'', JStr ''SEVERE''] (b_tier b)
      then [''tier must be MINOR, MODERATE or SEVERE''] else [])"

section \<open>The violations table\<close>

text \<open>
  One stored row of the table \<open>violations\<close>. The REAL NOT NULL columns hold a number,
  \<open>lat\<close> and \<open>lon\<close> a number or NULL (\<open>None\<close>), \<open>received_at\<close> the server's clock at the
  insert, kept here as a count of seconds.
\<close>

record violation =
  v_id :: int
  v_device :: string
  v_speed :: jsnum
  v_speed_limit :: jsnum
  v_excess :: jsnum
  v_tier :: string
  v_lat :: "jsnum option"
  v_lon :: "jsnum option"
  v_received_at :: nat

text \<open>
  The database: the rows in insertion order, and the counter that AUTOINCREMENT keeps in
  \<open>sqlite_sequence\<close> (the largest id ever given out, which DELETE does not reset).
\<close>

record db =
  rows :: "violation list"
  sqlite_sequence :: int

definition empty_db :: db where
  "empty_db = \<lparr>rows = [], sqlite_sequence = 0\<rparr>"

text \<open>The object the POST handler hands to \<open>stmtInsert.run\<close>.\<close>

record row =
  r_device :: jsval
  r_speed :: jsnum
  r_speed_limit :: jsnum
  r_excess :: jsnum
  r_tier :: string
  r_lat :: "jsnum option"
  r_lon :: "jsnum option"

text \<open>
  Binding a value to a statement parameter (better-sqlite3): a number is bound as a
  double, and SQLite stores a NaN double as NULL; a string as text; null as NULL; a
  boolean, an array or an object is refused with a TypeError.
\<close>

definition bindable :: "jsval \<Rightarrow> bool" where
  "bindable v = (case v of JBool b \<Rightarrow> False | JObj s \<Rightarrow> False | _ \<Rightarrow> True)"

definition binds_null :: "jsval \<Rightarrow> bool" where
  "binds_null v = (v = JNull \<or> v = JUndefined \<or> v = JNum NaN)"

text \<open>What a TEXT column keeps of a bound value that is not NULL.\<close>

definition text_affinity :: "platform \<Rightarrow> jsval \<Rightarrow> string" where
  "text_affinity P v = (case v of JStr s \<Rightarrow> s | JNum n \<Rightarrow> real_text P n | _ \<Rightarrow> [])"

text \<open>What a nullable REAL column keeps: NULL for null and for NaN.\<close>

definition real_or_null :: "jsnum option \<Rightarrow> jsnum option" where
  "real_or_null x = (if x = Some NaN then None else x)"

definition next_id :: "db \<Rightarrow> int" where
  "next_id d = fold max (map v_id (rows d)) (sqlite_sequence d) + 1"

text \<open>The stored form of a row that passes the constraints, with its id and timestamp.\<close>

definition store_row :: "platform \<Rightarrow> nat \<Rightarrow> int \<Rightarrow> row \<Rightarrow> violation" where
  "store_row P now i r =
     \<lparr>v_id = i,
      v_device = text_affinity P (r_device r),
      v_speed = r_speed r,
      v_speed_limit = r_speed_limit r,
      v_excess = r_excess r,
      v_tier = r_tier r,
      v_lat = real_or_null (r_lat r),
      v_lon = real_or_null (r_lon r),
      v_received_at = now\<rparr>"

text \<open>
  \<open>stmtInsert.run(row)\<close>: either an exception with its message (\<open>Inl\<close>), the table
  untouched, or the table with the new row and \<open>lastInsertRowid\<close>. The NOT NULL
  constraints are checked in column order.
\<close>

definition stmtInsert_run :: "platform \<Rightarrow> nat \<Rightarrow> row \<Rightarrow> db \<Rightarrow> string + (db \<times> int)" where
  "stmtInsert_run P now r d =
     (if \<not> bindable (r_device r)
        then Inl ''SQLite3 can only bind numbers, strings, bigints, buffers, and null''
      else if binds_null (r_device r) then Inl ''NOT NULL constraint failed: violations.device''
      else if r_speed r = NaN then Inl ''NOT NULL constraint failed: violations.speed''
      else if r_speed_limit r = NaN
        then Inl ''NOT NULL constraint failed: violations.speed_limit''
      else if r_excess r = NaN then Inl ''NOT NULL constraint failed: violations.excess''
      else
        (let i = next_id d
         in Inr (d\<lparr>rows := rows d @ [store_row P now i r], sqlite_sequence := i\<rparr>, i)))"

text \<open>The rows that the insert accepts: those for which none of its checks fails.\<close>

definition insertable :: "row \<Rightarrow> bool" where
  "insertable r =
     (bindable (r_device r) \<and> \<not> binds_null (r_device r) \<and> r_speed r \<noteq> NaN \<and>
      r_speed_limit r \<noteq> NaN \<and> r_excess r \<noteq> NaN)"

text \<open>
  \<open>stmtById.get(n)\<close>: the row whose id equals the bound number, if any. A NaN is bound
  as NULL and equals no id.
\<close>

definition stmtById_get :: "jsnum \<Rightarrow> db \<Rightarrow> violation option" where
  "stmtById_get n d = find (\<lambda>v. n = Fin (real_of_int (v_id v))) (rows d)"

text \<open>
  LIMIT with a bound double: an error unless the value converts to a 64-bit integer
  without loss (NULL, so NaN, does not); a negative limit is no limit.
\<close>

definition sql_limit :: "jsnum \<Rightarrow> 'a list \<Rightarrow> string + 'a list" where
  "sql_limit n xs =
     (case n of
        Fin x \<Rightarrow>
          if real_of_int \<lfloor>x\<rfloor> = x \<and> - (2 ^ 63) \<le> x \<and> x < 2 ^ 63
          then Inr (if x < 0 then xs else take (nat \<lfloor>x\<rfloor>) xs)
          else Inl ''datatype mismatch''
      | _ \<Rightarrow> Inl ''datatype mismatch'')"

text \<open>
  The query that GET /api/violations assembles: the optional filters joined by AND,
  newest \<open>received_at\<close> first, then LIMIT. SQL leaves the order of rows with equal
  \<open>received_at\<close> open; the model lists the later insert first.
\<close>

definition matches :: "string option \<Rightarrow> string option \<Rightarrow> violation \<Rightarrow> bool" where
  "matches tier device v =
     ((case tier of None \<Rightarrow> True | Some t \<Rightarrow> v_tier v = t) \<and>
      (case device of None \<Rightarrow> True | Some dv \<Rightarrow> v_device v = dv))"

definition select_violations ::
  "string option \<Rightarrow> string option \<Rightarrow> jsnum \<Rightarrow> db \<Rightarrow> string + violation list" where
  "select_violations tier device n d =
     sql_limit n (rev (sort_key v_received_at (filter (matches tier device) (rows d))))"

text \<open>
  \<open>stmtStats.get()\<close>. SUM over no rows is NULL (\<open>None\<close>). The columns \<open>avg_excess\<close> and
  \<open>max_speed\<close>, rounded floating-point aggregates, are left out.
\<close>

record stats =
  s_total :: int
  s_devices :: int
  s_severe :: "int option"
  s_moderate :: "int option"
  s_minor :: "int option"

definition sum_case :: "string \<Rightarrow> violation list \<Rightarrow> int option" where
  "sum_case t vs =
     (if vs = [] then None else Some (sum_list (map (\<lambda>v. if v_tier v = t then 1 else 0) vs)))"

definition stmtStats_get :: "db \<Rightarrow> stats" where
  "stmtStats_get d =
     \<lparr>s_total = int (length (rows d)),
      s_devices = int (card (set (map v_device (rows d)))),
      s_severe = sum_case ''SEVERE'' (rows d),
      s_moderate = sum_case ''MODERATE'' (rows d),
      s_minor = sum_case ''MINOR'' (rows d)\<rparr>"

text \<open>\<open>db.exec('DELETE FROM violations')\<close>.\<close>

definition delete_all :: "db \<Rightarrow> db" where
  "delete_all d = d\<lparr>rows := []\<rparr>"

section \<open>The routes\<close>

text \<open>
  A response is its HTTP status and the JSON body, kept structured:
  \<open>Created i\<close> is \<open>{ok:true, id:i}\<close>, \<open>ValidationErrors es\<close> is \<open>{ok:false, errors:es}\<close>,
  \<open>Failure e\<close> is \<open>{ok:false, error:e}\<close>, \<open>Violations n vs\<close> is
  \<open>{ok:true, count:n, violations:vs}\<close>, \<open>Single v\<close> is \<open>{ok:true, violation:v}\<close> and
  \<open>Message m\<close> is \<open>{ok:true, message:m}\<close>. What the handlers write to the console is not
  part of the model.
\<close>

datatype payload =
    Created int
  | ValidationErrors "string list"
  | Failure string
  | Violations nat "violation list"
  | Single violation
  | Message string

type_synonym response = "nat \<times> payload"

text \<open>A destructuring default \<open>{ x = d }\<close> replaces a missing property only.\<close>

definition default_to :: "jsval \<Rightarrow> jsval \<Rightarrow> jsval" where
  "default_to v d = (if v = JUndefined then d else v)"

text \<open>The \<open>row\<close> object of the POST handler, field by field.\<close>

definition build_row :: "platform \<Rightarrow> body \<Rightarrow> row" where
  "build_row P b =
     (let device = default_to (b_device b) (JStr ''UNKNOWN'');
          speed = b_speed b;
          limit = b_limit b;
          excess = b_excess b;
          tier = b_tier b;
          lat = default_to (b_lat b) JNull;
          lon = default_to (b_lon b) JNull
      in \<lparr>r_device = device,
          r_speed = parseFloat speed,
          r_speed_limit = parseFloat limit,
          r_excess = parseFloat (coalesce excess (JNum (js_minus speed limit))),
          r_tier = toUpperCase (js_String P tier),
          r_lat = (if \<not> nullish lat then Some (parseFloat lat) else None),
          r_lon = (if \<not> nullish lon then Some (parseFloat lon) else None)\<rparr>)"

text \<open>
  POST /api/violation. \<open>now\<close> is the server's clock when the row is inserted. The
  result is the database afterwards and the response. The \<open>catch\<close> answers with a
  fixed text, whatever the exception says.
\<close>

definition post_violation :: "platform \<Rightarrow> nat \<Rightarrow> body \<Rightarrow> db \<Rightarrow> db \<times> response" where
  "post_violation P now b d =
     (let errors = validateViolation b
      in if errors \<noteq> [] then (d, 400, ValidationErrors errors)
         else case stmtInsert_run P now (build_row P b) d of
                Inr (d', i) \<Rightarrow> (d', 201, Created i)
              | Inl msg \<Rightarrow> (d, 500, Failure ''Database error''))"

text \<open>
  The query string of a request, as \<open>req.query\<close> holds it: each parameter is missing, a
  text, or an array or object of texts.
\<close>

record query =
  q_limit :: jsval
  q_tier :: jsval
  q_device :: jsval
  q_key :: jsval

definition js_or :: "jsval \<Rightarrow> jsval \<Rightarrow> jsval" where
  "js_or a b = (if truthy a then a else b)"

definition parseInt :: "platform \<Rightarrow> jsval \<Rightarrow> jsnum" where
  "parseInt P v = parseInt_text (js_String P v)"

text \<open>The first line of GET /api/violations: the limit handed to the query.\<close>

definition effective_limit :: "platform \<Rightarrow> query \<Rightarrow> jsnum" where
  "effective_limit P q = Math_min (parseInt P (js_or (q_limit q) (JStr ''200''))) (Fin 1000)"

text \<open>The two optional filters: a parameter that is truthy becomes a text to match.\<close>

definition tier_filter :: "platform \<Rightarrow> query \<Rightarrow> string option" where
  "tier_filter P q =
     (if truthy (q_tier q) then Some (toUpperCase (js_String P (q_tier q))) else None)"

definition device_filter :: "platform \<Rightarrow> query \<Rightarrow> string option" where
  "device_filter P q = (if truthy (q_device q) then Some (js_String P (q_device q)) else None)"

text \<open>GET /api/violations. The \<open>catch\<close> answers with the message of the exception.\<close>

definition get_violations :: "platform \<Rightarrow> query \<Rightarrow> db \<Rightarrow> response" where
  "get_violations P q d =
     (let limit = effective_limit P q;
          tier = tier_filter P q;
          device = device_filter P q
      in case select_violations tier device limit d of
           Inr rs \<Rightarrow> (200, Violations (length rs) rs)
         | Inl msg \<Rightarrow> (500, Failure msg))"

text \<open>GET /api/violations/:id, with the text of the path parameter.\<close>

definition get_violation :: "string \<Rightarrow> db \<Rightarrow> response" where
  "get_violation ident d =
     (case stmtById_get (parseInt_text ident) d of
        None \<Rightarrow> (404, Failure ''Not found'')
      | Some v \<Rightarrow> (200, Single v))"

text \<open>DELETE /api/violations.\<close>

definition ADMIN_KEY :: "platform \<Rightarrow> string" where
  "ADMIN_KEY P =
     (case env_ADMIN_KEY P of None \<Rightarrow> ''changeme'' | Some k \<Rightarrow> if k = [] then ''changeme'' else k)"

definition delete_violations :: "platform \<Rightarrow> query \<Rightarrow> db \<Rightarrow> db \<times> response" where
  "delete_violations P q d =
     (if q_key q \<noteq> JStr (ADMIN_KEY P) then (d, 401, Failure ''Unauthorized'')
      else (delete_all d, 200, Message ''All violations deleted''))"

text \<open>
  The two routes that write, as requests, and the table after a sequence of them,
  starting from a new database file. The GET routes leave the table as it is.
\<close>

datatype request = POST nat body | DELETE query

fun handle :: "platform \<Rightarrow> db \<Rightarrow> request \<Rightarrow> db" where
  "handle P d (POST now b) = fst (post_violation P now b d)"
| "handle P d (DELETE q) = fst (delete_violations P q d)"

definition serve :: "platform \<Rightarrow> request list \<Rightarrow> db" where
  "serve P rs = foldl (handle P) empty_db rs"

text \<open>
  A client that adds the three tier counts of a stats object gets JavaScript's sum, in
  which null counts as 0 (the dashboard reads them as \<open>s.severe || 0\<close>).
\<close>

definition count_of :: "int option \<Rightarrow> int" where
  "count_of c = (case c of None \<Rightarrow> 0 | Some n \<Rightarrow> n)"

section \<open>Sample inputs\<close>

text \<open>
  A platform with no ADMIN_KEY in the environment, the spec's example payload
  \<open>{device:"D1", speed:80, limit:50, tier:"SEVERE"}\<close>, and a request without query string.
\<close>

definition sample_platform :: platform where
  "sample_platform = \<lparr>env_ADMIN_KEY = None, num_text = (\<lambda>n. ''0''), real_text = (\<lambda>n. ''0.0'')\<rparr>"

definition example_body :: body where
  "example_body =
     \<lparr>b_device = JStr ''D1'', b_speed = JNum (Fin 80), b_limit = JNum (Fin 50),
      b_excess = JUndefined, b_tier = JStr ''SEVERE'', b_lat = JUndefined, b_lon = JUndefined\<rparr>"

definition no_query :: query where
  "no_query = \<lparr>q_limit = JUndefined, q_tier = JUndefined, q_device = JUndefined, q_key = JUndefined\<rparr>"

text \<open>
  Six requests to the writing routes: an insert, a delete with the default key, an
  insert, an insert that validation refuses, a delete without key, an insert.
\<close>

definition sample_requests :: "request list" where
  "sample_requests =
     [POST 1 example_body,
      DELETE (no_query\<lparr>q_key := JStr ''changeme''\<rparr>),
      POST 2 (example_body\<lparr>b_tier := JStr ''MINOR''\<rparr>),
      POST 3 (example_body\<lparr>b_tier := JStr ''minor''\<rparr>),
      DELETE no_query,
      POST 4 example_body]"

section \<open>Basic facts\<close>


lemma includes_tiers_iff:
  "js_includes [JStr ''MINOR'', JStr ''MODERATE'', JStr ''SEVERE''] v \<longleftrightarrow>
     v \<in> {JStr ''MINOR'', JStr ''MODERATE'', JStr ''SEVERE''}"
  by (cases v) (auto simp: js_includes_def same_value_zero_def)

lemma tier_member_truthy:
  "v \<in> {JStr ''MINOR'', JStr ''MODERATE'', JStr ''SEVERE''} \<Longrightarrow> truthy v"
  by auto

lemma validate_empty_iff:
  "validateViolation b = [] \<longleftrightarrow>
     typeof (b_speed b) = ''number'' \<and> typeof (b_limit b) = ''number'' \<and>
     b_tier b \<in> {JStr ''MINOR'', JStr ''MODERATE'', JStr ''SEVERE''}"
  unfolding validateViolation_def includes_tiers_iff
  using tier_member_truthy [of "b_tier b"] by auto

lemma toUpperCase_tiers:
  "toUpperCase ''MINOR'' = ''MINOR''" "toUpperCase ''MODERATE'' = ''MODERATE''"
  "toUpperCase ''SEVERE'' = ''SEVERE''"
  by (simp_all add: toUpperCase_def upper_char_def lower_alpha_def upper_alpha_def)

lemma fold_max_lower: "(a::int) \<le> fold max xs a"
proof (induction xs arbitrary: a)
  case Nil
  show ?case by simp
next
  case (Cons x xs)
  have "a \<le> max x a" by simp
  also have "max x a \<le> fold max xs (max x a)" by (rule Cons.IH)
  finally show ?case by simp
qed

lemma fold_max_member: "(x::int) \<in> set xs \<Longrightarrow> x \<le> fold max xs a"
proof (induction xs arbitrary: a)
  case Nil
  then show ?case by simp
next
  case (Cons y ys)
  show ?case
  proof (cases "x = y")
    case True
    have "x \<le> max y a" using True by simp
    also have "max y a \<le> fold max ys (max y a)" by (rule fold_max_lower)
    finally show ?thesis by simp
  next
    case False
    with Cons.prems have "x \<in> set ys" by simp
    then show ?thesis using Cons.IH by simp
  qed
qed

lemma next_id_fresh: "v \<in> set (rows d) \<Longrightarrow> v_id v < next_id d"
  using fold_max_member [of "v_id v" "map v_id (rows d)" "sqlite_sequence d"]
  by (simp add: next_id_def)

lemma post_created:
  assumes "post_violation P now b d = (d', 201, Created i)"
  shows "validateViolation b = [] \<and> i = next_id d \<and>
         d' = d\<lparr>rows := rows d @ [store_row P now i (build_row P b)], sqlite_sequence := i\<rparr>"
  using assms
  by (auto simp: post_violation_def Let_def stmtInsert_run_def split: if_splits sum.splits)


lemma find_fresh_last:
  "\<forall>x \<in> set xs. \<not> Q x \<Longrightarrow> Q w \<Longrightarrow> find Q (xs @ [w]) = Some w"
  by (induction xs) auto

lemma post_then_lookup:
  assumes post: "post_violation P now b d = (d', 201, Created i)"
    and ident: "parseInt_text ident = Fin (real_of_int i)"
  shows "get_violation ident d' = (200, Single (store_row P now i (build_row P b)))"
proof -
  let ?w = "store_row P now i (build_row P b)"
  from post_created [OF post] have i: "i = next_id d"
    and d': "rows d' = rows d @ [?w]" by simp_all
  have "\<forall>v \<in> set (rows d). \<not> (Fin (real_of_int i) = Fin (real_of_int (v_id v)))"
  proof
    fix v assume "v \<in> set (rows d)"
    then have "v_id v < i" using next_id_fresh [of v d] i by simp
    then show "\<not> (Fin (real_of_int i) = Fin (real_of_int (v_id v)))" by simp
  qed
  moreover have "Fin (real_of_int i) = Fin (real_of_int (v_id ?w))"
    by (simp add: store_row_def)
  ultimately have "find (\<lambda>v. Fin (real_of_int i) = Fin (real_of_int (v_id v))) (rows d @ [?w]) = Some ?w"
    by (rule find_fresh_last)
  then show ?thesis
    by (simp add: get_violation_def stmtById_get_def ident d')
qed

text \<open>The definitions that evaluating a route on a concrete request unfolds.\<close>

lemmas route_defs = post_violation_def validateViolation_def js_includes_def same_value_zero_def
  build_row_def default_to_def coalesce_def nullish_def js_minus_def stmtInsert_run_def
  bindable_def binds_null_def next_id_def store_row_def text_affinity_def real_or_null_def
  toUpperCase_def upper_char_def lower_alpha_def upper_alpha_def empty_db_def
  example_body_def sample_platform_def get_violation_def stmtById_get_def
lemmas parse_defs = parseInt_text_def parseFloat_text_def trim_start_def ws_chars_def split_sign_def
  is_radix_digit_def digit_value_def digits_value_def digit_table_def signed_decimal_def
  unsigned_decimal_def exponent_part_def scale10_def

lemmas query_defs = get_violations_def effective_limit_def parseInt_def js_or_def tier_filter_def
  device_filter_def select_violations_def sql_limit_def matches_def no_query_def

section \<open>C1: the tier of an accepted payload\<close>

text \<open>
  C1, as claimed: a tier that differs from MINOR, MODERATE or SEVERE only in letter case
  passes validation and is stored upper-cased, so that
  POST \<open>{device:"D1", speed:80, limit:50, tier:"severe"}\<close> returns 201. It fails at
  that very payload: \<open>validateViolation\<close> compares the tier as sent with the three
  upper-case texts, before the handler upper-cases anything, and the answer is 400.
\<close>

theorem tier_case_counterexample:
  "typeof (b_speed (example_body\<lparr>b_tier := JStr ''severe''\<rparr>)) = ''number'' \<and>
   typeof (b_limit (example_body\<lparr>b_tier := JStr ''severe''\<rparr>)) = ''number'' \<and>
   toUpperCase ''severe'' = ''SEVERE'' \<and>
   post_violation sample_platform 0 (example_body\<lparr>b_tier := JStr ''severe''\<rparr>) empty_db =
     (empty_db, 400, ValidationErrors [''tier must be MINOR, MODERATE or SEVERE''])"
  by (simp add: route_defs)

text \<open>
  C1, as amended: when speed and limit are numbers, validation succeeds exactly when the
  tier is one of the texts MINOR, MODERATE, SEVERE as written; any other tier, one in
  lower case included, is answered 400 with the message
  "tier must be MINOR, MODERATE or SEVERE" and the table is unchanged; and after a 201
  the record read back by the returned id carries the tier that was sent.
\<close>

theorem tier_exact_stored:
  assumes "typeof (b_speed b) = ''number''" and "typeof (b_limit b) = ''number''"
  shows "(validateViolation b = [] \<longleftrightarrow>
            b_tier b \<in> {JStr ''MINOR'', JStr ''MODERATE'', JStr ''SEVERE''}) \<and>
         (b_tier b \<notin> {JStr ''MINOR'', JStr ''MODERATE'', JStr ''SEVERE''} \<longrightarrow>
            (\<exists>es. post_violation P now b d = (d, 400, ValidationErrors es) \<and>
                  ''tier must be MINOR, MODERATE or SEVERE'' \<in> set es)) \<and>
         (\<forall>d' i ident.
            post_violation P now b d = (d', 201, Created i) \<and>
            parseInt_text ident = Fin (real_of_int i) \<longrightarrow>
            (\<exists>v. get_violation ident d' = (200, Single v) \<and> JStr (v_tier v) = b_tier b))"
proof (intro conjI allI impI)
  show "validateViolation b = [] \<longleftrightarrow>
          b_tier b \<in> {JStr ''MINOR'', JStr ''MODERATE'', JStr ''SEVERE''}"
    using assms by (simp add: validate_empty_iff)
next
  assume bad: "b_tier b \<notin> {JStr ''MINOR'', JStr ''MODERATE'', JStr ''SEVERE''}"
  then have msg: "''tier must be MINOR, MODERATE or SEVERE'' \<in> set (validateViolation b)"
    unfolding validateViolation_def includes_tiers_iff by simp
  then have "validateViolation b \<noteq> []" by auto
  then have "post_violation P now b d = (d, 400, ValidationErrors (validateViolation b))"
    by (simp add: post_violation_def Let_def)
  with msg show "\<exists>es. post_violation P now b d = (d, 400, ValidationErrors es) \<and>
                  ''tier must be MINOR, MODERATE or SEVERE'' \<in> set es"
    by blast
next
  fix d' i ident
  assume a: "post_violation P now b d = (d', 201, Created i) \<and>
             parseInt_text ident = Fin (real_of_int i)"
  then have look: "get_violation ident d' = (200, Single (store_row P now i (build_row P b)))"
    using post_then_lookup by blast
  from a have "validateViolation b = []" using post_created by blast
  then have "b_tier b \<in> {JStr ''MINOR'', JStr ''MODERATE'', JStr ''SEVERE''}"
    by (simp add: validate_empty_iff)
  then have "JStr (v_tier (store_row P now i (build_row P b))) = b_tier b"
    by (auto simp: store_row_def build_row_def Let_def toUpperCase_tiers)
  with look show "\<exists>v. get_violation ident d' = (200, Single v) \<and> JStr (v_tier v) = b_tier b"
    by blast
qed

text \<open>
  The spec's example with the tier in upper case: 201, and the record read back has tier
  SEVERE and excess 30. With \<open>Severe\<close> the answer is 400.
\<close>

theorem tier_exact_stored_witness:
  "typeof (b_speed example_body) = ''number'' \<and> typeof (b_limit example_body) = ''number'' \<and>
   validateViolation example_body = [] \<and>
   post_violation sample_platform 0 example_body empty_db =
     (\<lparr>rows = [\<lparr>v_id = 1, v_device = ''D1'', v_speed = Fin 80, v_speed_limit = Fin 50,
                 v_excess = Fin 30, v_tier = ''SEVERE'', v_lat = None, v_lon = None,
                 v_received_at = 0\<rparr>], sqlite_sequence = 1\<rparr>, 201, Created 1) \<and>
   parseInt_text ''1'' = Fin (real_of_int 1) \<and>
   get_violation ''1'' (fst (post_violation sample_platform 0 example_body empty_db)) =
     (200, Single \<lparr>v_id = 1, v_device = ''D1'', v_speed = Fin 80, v_speed_limit = Fin 50,
                   v_excess = Fin 30, v_tier = ''SEVERE'', v_lat = None, v_lon = None,
                   v_received_at = 0\<rparr>) \<and>
   b_tier (example_body\<lparr>b_tier := JStr ''Severe''\<rparr>) \<notin>
     {JStr ''MINOR'', JStr ''MODERATE'', JStr ''SEVERE''} \<and>
   post_violation sample_platform 0 (example_body\<lparr>b_tier := JStr ''Severe''\<rparr>) empty_db =
     (empty_db, 400, ValidationErrors [''tier must be MINOR, MODERATE or SEVERE''])"
  using tier_exact_stored [of example_body sample_platform 0 empty_db]
    tier_exact_stored [of "example_body\<lparr>b_tier := JStr ''Severe''\<rparr>" sample_platform 0 empty_db]
  by (simp add: route_defs parse_defs)

section \<open>C2: the two tier errors\<close>

text \<open>
  C2, as claimed: the presence error "tier is required" and the enum-membership error
  never occur together; an empty tier gets only the second, an absent one only the
  first. Both payloads get both messages.
\<close>

theorem tier_errors_counterexample:
  "validateViolation (example_body\<lparr>b_tier := JStr ''''\<rparr>) =
     [''tier is required'', ''tier must be MINOR, MODERATE or SEVERE''] \<and>
   validateViolation (example_body\<lparr>b_tier := JUndefined\<rparr>) =
     [''tier is required'', ''tier must be MINOR, MODERATE or SEVERE'']"
  by (simp add: route_defs)

text \<open>
  C2, as amended: the presence error is reported exactly when the tier is falsy (absent,
  null, false, 0 or the empty text) and the enum-membership error exactly when the tier
  is not one of the three texts. The checks are independent, so every payload that gets
  the presence error gets the enum-membership error with it.
\<close>

theorem tier_errors_cooccur:
  "(''tier is required'' \<in> set (validateViolation b) \<longleftrightarrow> \<not> truthy (b_tier b)) \<and>
   (''tier must be MINOR, MODERATE or SEVERE'' \<in> set (validateViolation b) \<longleftrightarrow>
      b_tier b \<notin> {JStr ''MINOR'', JStr ''MODERATE'', JStr ''SEVERE''}) \<and>
   (''tier is required'' \<in> set (validateViolation b) \<longrightarrow>
      ''tier must be MINOR, MODERATE or SEVERE'' \<in> set (validateViolation b))"
proof -
  have presence: "''tier is required'' \<in> set (validateViolation b) \<longleftrightarrow> \<not> truthy (b_tier b)"
    by (simp add: validateViolation_def)
  have enum: "''tier must be MINOR, MODERATE or SEVERE'' \<in> set (validateViolation b) \<longleftrightarrow>
      b_tier b \<notin> {JStr ''MINOR'', JStr ''MODERATE'', JStr ''SEVERE''}"
    unfolding validateViolation_def includes_tiers_iff by simp
  have "\<not> truthy (b_tier b) \<Longrightarrow> b_tier b \<notin> {JStr ''MINOR'', JStr ''MODERATE'', JStr ''SEVERE''}"
    using tier_member_truthy by blast
  with presence enum show ?thesis by blast
qed

text \<open>A null tier is falsy and gets both messages.\<close>

theorem tier_errors_cooccur_witness:
  "\<not> truthy (b_tier (example_body\<lparr>b_tier := JNull\<rparr>)) \<and>
   ''tier is required'' \<in> set (validateViolation (example_body\<lparr>b_tier := JNull\<rparr>)) \<and>
   ''tier must be MINOR, MODERATE or SEVERE'' \<in>
     set (validateViolation (example_body\<lparr>b_tier := JNull\<rparr>))"
  using tier_errors_cooccur [of "example_body\<lparr>b_tier := JNull\<rparr>"]
  by (simp add: example_body_def)

section \<open>C3: speed and limit\<close>

text \<open>
  C3, as claimed: speed and limit are accepted exactly when they are numeric after
  coercion, so the numeric text "80" is accepted. The text "80" reads as the number 80
  under \<open>parseFloat\<close> and ToNumber alike, and the payload is answered 400.
\<close>

theorem numeric_string_counterexample:
  "parseFloat (JStr ''80'') = Fin 80 \<and> ToNumber (JStr ''80'') = Fin 80 \<and>
   post_violation sample_platform 0 (example_body\<lparr>b_speed := JStr ''80''\<rparr>) empty_db =
     (empty_db, 400, ValidationErrors [''speed must be a number''])"
  by (simp add: route_defs parse_defs StringToNumber_def trim_def radix_literal_def)

text \<open>
  C3, as amended: speed and limit are each accepted exactly when \<open>typeof\<close> gives
  "number" for them, with no coercion (a numeric text such as "80" is refused); any
  other speed, such as "x", is answered 400 with an error list that contains
  "speed must be a number", and the table is unchanged.
\<close>

theorem speed_limit_typeof:
  "(''speed must be a number'' \<in> set (validateViolation b) \<longleftrightarrow>
      typeof (b_speed b) \<noteq> ''number'') \<and>
   (''limit must be a number'' \<in> set (validateViolation b) \<longleftrightarrow>
      typeof (b_limit b) \<noteq> ''number'') \<and>
   (typeof (b_speed b) \<noteq> ''number'' \<longrightarrow>
      (\<exists>es. post_violation P now b d = (d, 400, ValidationErrors es) \<and>
            ''speed must be a number'' \<in> set es))"
proof (intro conjI impI)
  show speed: "''speed must be a number'' \<in> set (validateViolation b) \<longleftrightarrow>
      typeof (b_speed b) \<noteq> ''number''"
    by (simp add: validateViolation_def)
  show "''limit must be a number'' \<in> set (validateViolation b) \<longleftrightarrow>
      typeof (b_limit b) \<noteq> ''number''"
    by (simp add: validateViolation_def)
  assume "typeof (b_speed b) \<noteq> ''number''"
  with speed have msg: "''speed must be a number'' \<in> set (validateViolation b)" by simp
  then have "validateViolation b \<noteq> []" by auto
  then have "post_violation P now b d = (d, 400, ValidationErrors (validateViolation b))"
    by (simp add: post_violation_def Let_def)
  with msg show "\<exists>es. post_violation P now b d = (d, 400, ValidationErrors es) \<and>
            ''speed must be a number'' \<in> set es"
    by blast
qed

text \<open>The spec's example \<open>{speed:"x", limit:50, tier:"SEVERE"}\<close>.\<close>

theorem speed_limit_typeof_witness:
  "typeof (b_speed (example_body\<lparr>b_device := JUndefined, b_speed := JStr ''x''\<rparr>)) \<noteq> ''number'' \<and>
   post_violation sample_platform 0
       (example_body\<lparr>b_device := JUndefined, b_speed := JStr ''x''\<rparr>) empty_db =
     (empty_db, 400, ValidationErrors [''speed must be a number''])"
  using speed_limit_typeof
    [of "example_body\<lparr>b_device := JUndefined, b_speed := JStr ''x''\<rparr>" sample_platform 0 empty_db]
  by (simp add: route_defs)

section \<open>C4: a failing query on GET /api/violations\<close>

text \<open>
  The two \<open>catch\<close> blocks. When the insert of a valid payload throws, POST answers with
  the fixed text; when the query throws, GET /api/violations answers with the message of
  the exception.
\<close>

lemma post_hides_store_error:
  "validateViolation b = [] \<Longrightarrow> stmtInsert_run P now (build_row P b) d = Inl msg \<Longrightarrow>
     post_violation P now b d = (d, 500, Failure ''Database error'')"
  by (simp add: post_violation_def)

lemma get_passes_store_error:
  "select_violations (tier_filter P q) (device_filter P q) (effective_limit P q) d = Inl msg \<Longrightarrow>
     get_violations P q d = (500, Failure msg)"
  by (simp add: get_violations_def)

text \<open>
  C4 claims that on every route a failing store operation gives a generic 500 whose body
  never contains the internal error text, for GET /api/violations as for POST. At
  GET \<open>/api/violations?limit=abc\<close> the limit handed to SQLite is NaN, the query fails
  with "datatype mismatch", and that text is the \<open>error\<close> of the 500 response.
\<close>

theorem get_violations_leaks_store_error:
  "select_violations (tier_filter P (no_query\<lparr>q_limit := JStr ''abc''\<rparr>))
       (device_filter P (no_query\<lparr>q_limit := JStr ''abc''\<rparr>))
       (effective_limit P (no_query\<lparr>q_limit := JStr ''abc''\<rparr>)) d =
     Inl ''datatype mismatch'' \<and>
   get_violations P (no_query\<lparr>q_limit := JStr ''abc''\<rparr>) d =
     (500, Failure ''datatype mismatch'')"
  by (simp add: query_defs parse_defs)

section \<open>C5: the limit of GET /api/violations\<close>









section \<open>C6: tiers of the stored records, and the totals\<close>

lemma post_rows:
  "rows (fst (post_violation P now b d)) = rows d \<or>
   (validateViolation b = [] \<and>
    rows (fst (post_violation P now b d)) = rows d @ [store_row P now (next_id d) (build_row P b)])"
  by (simp add: post_violation_def Let_def stmtInsert_run_def split: sum.splits)

lemma valid_row_tier:
  assumes "validateViolation b = []"
  shows "v_tier (store_row P now i (build_row P b)) \<in> {''MINOR'', ''MODERATE'', ''SEVERE''}"
proof -
  from assms have "b_tier b \<in> {JStr ''MINOR'', JStr ''MODERATE'', JStr ''SEVERE''}"
    by (simp add: validate_empty_iff)
  then show ?thesis
    by (auto simp: store_row_def build_row_def Let_def toUpperCase_tiers)
qed

lemma handle_tiers:
  assumes "\<forall>v \<in> set (rows d). v_tier v \<in> {''MINOR'', ''MODERATE'', ''SEVERE''}"
  shows "\<forall>v \<in> set (rows (handle P d r)). v_tier v \<in> {''MINOR'', ''MODERATE'', ''SEVERE''}"
proof (cases r)
  case (POST now b)
  from post_rows [of P now b d] show ?thesis
  proof
    assume "rows (fst (post_violation P now b d)) = rows d"
    with assms POST show ?thesis by simp
  next
    assume "validateViolation b = [] \<and>
      rows (fst (post_violation P now b d)) = rows d @ [store_row P now (next_id d) (build_row P b)]"
    with assms POST valid_row_tier [of b P now "next_id d"] show ?thesis by auto
  qed
next
  case (DELETE q)
  with assms show ?thesis
    by (simp add: delete_violations_def delete_all_def)
qed

lemma foldl_handle_tiers:
  "\<forall>v \<in> set (rows d). v_tier v \<in> {''MINOR'', ''MODERATE'', ''SEVERE''} \<Longrightarrow>
   \<forall>v \<in> set (rows (foldl (handle P) d rs)). v_tier v \<in> {''MINOR'', ''MODERATE'', ''SEVERE''}"
proof (induction rs arbitrary: d)
  case Nil
  then show ?case by simp
next
  case (Cons r rs)
  from Cons.prems have "\<forall>v \<in> set (rows (handle P d r)). v_tier v \<in> {''MINOR'', ''MODERATE'', ''SEVERE''}"
    by (rule handle_tiers)
  then show ?case using Cons.IH by simp
qed

lemma count_of_sum_case:
  "count_of (sum_case t vs) = sum_list (map (\<lambda>v. if v_tier v = t then 1 else 0) vs)"
  by (simp add: count_of_def sum_case_def)

lemma tiers_partition:
  "\<forall>v \<in> set vs. v_tier v \<in> {''MINOR'', ''MODERATE'', ''SEVERE''} \<Longrightarrow>
   int (length vs) =
     sum_list (map (\<lambda>v. if v_tier v = ''SEVERE'' then 1 else 0) vs) +
     sum_list (map (\<lambda>v. if v_tier v = ''MODERATE'' then 1 else 0) vs) +
     sum_list (map (\<lambda>v. if v_tier v = ''MINOR'' then 1 else 0) vs)"
  by (induction vs) auto

text \<open>
  C6: after every sequence of POST /api/violation and DELETE /api/violations requests on
  a new database, every stored record has tier MINOR, MODERATE or SEVERE, and the total of
  \<open>stmtStats\<close> is the sum of its severe, moderate and minor counts. On an empty table the
  three counts are NULL, which the sum reads as 0; on a table with rows they are numbers.
\<close>

theorem stored_tiers_and_total:
  "(\<forall>v \<in> set (rows (serve P rs)). v_tier v \<in> {''MINOR'', ''MODERATE'', ''SEVERE''}) \<and>
   s_total (stmtStats_get (serve P rs)) =
     count_of (s_severe (stmtStats_get (serve P rs))) +
     count_of (s_moderate (stmtStats_get (serve P rs))) +
     count_of (s_minor (stmtStats_get (serve P rs))) \<and>
   (rows (serve P rs) \<noteq> [] \<longrightarrow>
      (\<exists>x y z. s_severe (stmtStats_get (serve P rs)) = Some x \<and>
               s_moderate (stmtStats_get (serve P rs)) = Some y \<and>
               s_minor (stmtStats_get (serve P rs)) = Some z \<and>
               s_total (stmtStats_get (serve P rs)) = x + y + z))"
proof -
  have inv: "\<forall>v \<in> set (rows (serve P rs)). v_tier v \<in> {''MINOR'', ''MODERATE'', ''SEVERE''}"
    unfolding serve_def by (rule foldl_handle_tiers) (simp add: empty_db_def)
  have sum: "s_total (stmtStats_get (serve P rs)) =
     count_of (s_severe (stmtStats_get (serve P rs))) +
     count_of (s_moderate (stmtStats_get (serve P rs))) +
     count_of (s_minor (stmtStats_get (serve P rs)))"
    using tiers_partition [OF inv] by (simp add: stmtStats_get_def count_of_sum_case)
  have "rows (serve P rs) \<noteq> [] \<Longrightarrow>
      (\<exists>x y z. s_severe (stmtStats_get (serve P rs)) = Some x \<and>
               s_moderate (stmtStats_get (serve P rs)) = Some y \<and>
               s_minor (stmtStats_get (serve P rs)) = Some z \<and>
               s_total (stmtStats_get (serve P rs)) = x + y + z)"
    using sum by (simp add: stmtStats_get_def sum_case_def count_of_def)
  with inv sum show ?thesis by blast
qed

text \<open>The six sample requests leave two records, one MINOR and one SEVERE.\<close>

theorem stored_tiers_and_total_witness:
  "map v_tier (rows (serve sample_platform sample_requests)) = [''MINOR'', ''SEVERE''] \<and>
   stmtStats_get (serve sample_platform sample_requests) =
     \<lparr>s_total = 2, s_devices = 1, s_severe = Some 1, s_moderate = Some 0, s_minor = Some 1\<rparr>"
  using stored_tiers_and_total [of sample_platform sample_requests]
  by (simp add: serve_def sample_requests_def route_defs no_query_def ADMIN_KEY_def
      delete_violations_def delete_all_def stmtStats_get_def sum_case_def)

section \<open>C7: DELETE /api/violations\<close>

text \<open>
  C7: when the key parameter is not the configured admin key, the answer is 401 with
  "Unauthorized" and the table is unchanged; when it is, the answer is 200 with ok:true,
  and the table has no rows and a total of 0.
\<close>

theorem delete_requires_key:
  "(q_key q \<noteq> JStr (ADMIN_KEY P) \<longrightarrow>
      delete_violations P q d = (d, 401, Failure ''Unauthorized'')) \<and>
   (q_key q = JStr (ADMIN_KEY P) \<longrightarrow>
      delete_violations P q d = (delete_all d, 200, Message ''All violations deleted'') \<and>
      rows (delete_all d) = [] \<and> s_total (stmtStats_get (delete_all d)) = 0)"
  by (simp add: delete_violations_def delete_all_def stmtStats_get_def)

text \<open>On a table with one record: a wrong key, then the default key "changeme".\<close>

theorem delete_requires_key_witness:
  "length (rows (fst (post_violation sample_platform 0 example_body empty_db))) = 1 \<and>
   q_key (no_query\<lparr>q_key := JStr ''letmein''\<rparr>) \<noteq> JStr (ADMIN_KEY sample_platform) \<and>
   length (rows (fst (delete_violations sample_platform (no_query\<lparr>q_key := JStr ''letmein''\<rparr>)
       (fst (post_violation sample_platform 0 example_body empty_db))))) = 1 \<and>
   snd (delete_violations sample_platform (no_query\<lparr>q_key := JStr ''letmein''\<rparr>)
       (fst (post_violation sample_platform 0 example_body empty_db))) =
     (401, Failure ''Unauthorized'') \<and>
   q_key (no_query\<lparr>q_key := JStr ''changeme''\<rparr>) = JStr (ADMIN_KEY sample_platform) \<and>
   delete_violations sample_platform (no_query\<lparr>q_key := JStr ''changeme''\<rparr>)
       (fst (post_violation sample_platform 0 example_body empty_db)) =
     (\<lparr>rows = [], sqlite_sequence = 1\<rparr>, 200, Message ''All violations deleted'')"
  using delete_requires_key [of "no_query\<lparr>q_key := JStr ''letmein''\<rparr>" sample_platform
      "fst (post_violation sample_platform 0 example_body empty_db)"]
    delete_requires_key [of "no_query\<lparr>q_key := JStr ''changeme''\<rparr>" sample_platform
      "fst (post_violation sample_platform 0 example_body empty_db)"]
  by (simp add: route_defs no_query_def ADMIN_KEY_def delete_violations_def delete_all_def)

section \<open>C8: reading back what was posted\<close>


text \<open>
  When validation has passed, the answer is 201 exactly for the rows the insert accepts:
  a device that is a text or a number other than NaN, and speed, limit and excess other
  than NaN. Otherwise it is 500.
\<close>

lemma insertable_iff:
  "insertable r \<longleftrightarrow> (\<exists>d' i. stmtInsert_run P now r d = Inr (d', i))"
  by (auto simp: insertable_def stmtInsert_run_def Let_def)

lemma insertable_device:
  "insertable r \<longleftrightarrow>
     ((\<exists>s. r_device r = JStr s) \<or> (\<exists>n. r_device r = JNum n \<and> n \<noteq> NaN)) \<and>
     r_speed r \<noteq> NaN \<and> r_speed_limit r \<noteq> NaN \<and> r_excess r \<noteq> NaN"
  by (cases "r_device r") (auto simp: insertable_def bindable_def binds_null_def)


lemma post_refused:
  assumes "validateViolation b = []" and "\<not> insertable (build_row P b)"
  shows "post_violation P now b d = (d, 500, Failure ''Database error'')"
  using assms by (auto simp: post_violation_def insertable_def stmtInsert_run_def Let_def)



section \<open>C9: the device of a stored record\<close>

text \<open>
  C9, as claimed: no accepted payload stores an empty device. The payload
  \<open>{device:"", speed:80, limit:50, tier:"SEVERE"}\<close> is accepted, and its record has the
  empty text as device.
\<close>

theorem empty_device_counterexample:
  "validateViolation (example_body\<lparr>b_device := JStr ''''\<rparr>) = [] \<and>
   post_violation sample_platform 0 (example_body\<lparr>b_device := JStr ''''\<rparr>) empty_db =
     (\<lparr>rows = [\<lparr>v_id = 1, v_device = '''', v_speed = Fin 80, v_speed_limit = Fin 50,
                 v_excess = Fin 30, v_tier = ''SEVERE'', v_lat = None, v_lon = None,
                 v_received_at = 0\<rparr>], sqlite_sequence = 1\<rparr>, 201, Created 1)"
  by (simp add: route_defs)

text \<open>
  C9, as amended: the device of a stored record is a text, which may be empty. After a
  201, the record read back has device "UNKNOWN" when the payload had no device, and the
  submitted text, the empty one included, when the device was a text.
\<close>

theorem device_stored:
  assumes "post_violation P now b d = (d', 201, Created i)"
    and "parseInt_text ident = Fin (real_of_int i)"
  shows "\<exists>v. get_violation ident d' = (200, Single v) \<and>
           (b_device b = JUndefined \<longrightarrow> v_device v = ''UNKNOWN'') \<and>
           (\<forall>s. b_device b = JStr s \<longrightarrow> v_device v = s)"
proof -
  let ?v = "store_row P now i (build_row P b)"
  have "get_violation ident d' = (200, Single ?v)"
    using assms by (rule post_then_lookup)
  moreover have "b_device b = JUndefined \<longrightarrow> v_device ?v = ''UNKNOWN''"
    by (simp add: store_row_def build_row_def Let_def default_to_def text_affinity_def)
  moreover have "\<forall>s. b_device b = JStr s \<longrightarrow> v_device ?v = s"
    by (simp add: store_row_def build_row_def Let_def default_to_def text_affinity_def)
  ultimately show ?thesis by blast
qed

text \<open>The example payload without device, and with device "D1".\<close>

theorem device_stored_witness:
  "post_violation sample_platform 0 (example_body\<lparr>b_device := JUndefined\<rparr>) empty_db =
     (\<lparr>rows = [\<lparr>v_id = 1, v_device = ''UNKNOWN'', v_speed = Fin 80, v_speed_limit = Fin 50,
                 v_excess = Fin 30, v_tier = ''SEVERE'', v_lat = None, v_lon = None,
                 v_received_at = 0\<rparr>], sqlite_sequence = 1\<rparr>, 201, Created 1) \<and>
   parseInt_text ''1'' = Fin (real_of_int 1) \<and>
   b_device (example_body\<lparr>b_device := JUndefined\<rparr>) = JUndefined \<and>
   get_violation ''1'' (fst (post_violation sample_platform 0
       (example_body\<lparr>b_device := JUndefined\<rparr>) empty_db)) =
     (200, Single \<lparr>v_id = 1, v_device = ''UNKNOWN'', v_speed = Fin 80, v_speed_limit = Fin 50,
                 v_excess = Fin 30, v_tier = ''SEVERE'', v_lat = None, v_lon = None,
                 v_received_at = 0\<rparr>) \<and>
   b_device example_body = JStr ''D1'' \<and>
   get_violation ''1'' (fst (post_violation sample_platform 0 example_body empty_db)) =
     (200, Single \<lparr>v_id = 1, v_device = ''D1'', v_speed = Fin 80, v_speed_limit = Fin 50,
                 v_excess = Fin 30, v_tier = ''SEVERE'', v_lat = None, v_lon = None,
                 v_received_at = 0\<rparr>)"
  using device_stored [of sample_platform 0 "example_body\<lparr>b_device := JUndefined\<rparr>" empty_db
      "fst (post_violation sample_platform 0 (example_body\<lparr>b_device := JUndefined\<rparr>) empty_db)"
      1 "''1''"]
    device_stored [of sample_platform 0 example_body empty_db
      "fst (post_violation sample_platform 0 example_body empty_db)" 1 "''1''"]
  by (simp add: route_defs parse_defs)

section \<open>C10: what validation does not look at\<close>

text \<open>
  C10: validation never looks at excess, lat or lon, whatever they are; and the payload
  \<open>{device:"D1", speed:80, limit:50, tier:"SEVERE", excess:"abc"}\<close> passes validation,
  its computed excess is NaN, the insert fails on the NOT NULL constraint of the column
  excess, and the answer is 500 with "Database error", the table unchanged.
\<close>

theorem excess_lat_lon_unvalidated:
  "validateViolation (b\<lparr>b_excess := e, b_lat := la, b_lon := lo\<rparr>) = validateViolation b \<and>
   validateViolation (example_body\<lparr>b_excess := JStr ''abc''\<rparr>) = [] \<and>
   r_excess (build_row P (example_body\<lparr>b_excess := JStr ''abc''\<rparr>)) = NaN \<and>
   stmtInsert_run P now (build_row P (example_body\<lparr>b_excess := JStr ''abc''\<rparr>)) d =
     Inl ''NOT NULL constraint failed: violations.excess'' \<and>
   post_violation P now (example_body\<lparr>b_excess := JStr ''abc''\<rparr>) d =
     (d, 500, Failure ''Database error'')"
  by (simp add: route_defs parse_defs)

end
